theory Spec2Isabelle
  imports Complex_Main "HOL-Library.Log_Nat" "HOL-Library.Word"
begin

section \<open>Numbers of the source language\<close>

text \<open>
  Every number of \<^verbatim>\<open>DeviceScreen.ts\<close> is an IEEE 754 binary64 value. A finite value is
  the rational number it denotes (\<open>Fin 0\<close> is the positive zero); negative zero, the two
  infinities and NaN are values of their own. Each arithmetic operation computes the exact
  rational result and rounds it to the nearest binary64 value, ties to the even mantissa.
\<close>

datatype jsnum = Fin real | NegZero | PosInf | NegInf | NaN

definition pow2 :: "int \<Rightarrow> real" where
  "pow2 k = (if 0 \<le> k then 2 ^ nat k else 1 / 2 ^ nat (- k))"

text \<open>For \<open>0 < x\<close>, the exponent \<open>e\<close> with \<open>2^e \<le> x < 2^(e+1)\<close>.\<close>

definition ilog2 :: "real \<Rightarrow> int" where
  "ilog2 x =
     (if 1 \<le> x then bitlen \<lfloor>x\<rfloor> - 1
      else if pow2 (1 - bitlen \<lfloor>1 / x\<rfloor>) \<le> x then 1 - bitlen \<lfloor>1 / x\<rfloor>
      else - bitlen \<lfloor>1 / x\<rfloor>)"

text \<open>The nearest integer, a tie going to the even one.\<close>

definition round_even :: "real \<Rightarrow> int" where
  "round_even y =
     (if y - of_int \<lfloor>y\<rfloor> < 1 / 2 then \<lfloor>y\<rfloor>
      else if 1 / 2 < y - of_int \<lfloor>y\<rfloor> then \<lfloor>y\<rfloor> + 1
      else if even \<lfloor>y\<rfloor> then \<lfloor>y\<rfloor>
      else \<lfloor>y\<rfloor> + 1)"

text \<open>
  Rounding of an exact result to binary64: 53 bits of mantissa, the exponent of a normal
  value between \<open>-1022\<close> and \<open>1023\<close>, subnormal values spaced by \<open>2^-1074\<close>; a result
  that rounds to \<open>2^1024\<close> or beyond is an infinity, and one that rounds to zero keeps
  the sign of the exact result. \<open>quantize a e\<close> is the multiple of \<open>2^(e-52)\<close> nearest
  to \<open>a\<close>; \<open>signed\<close> puts the sign back.
\<close>

definition quantize :: "real \<Rightarrow> int \<Rightarrow> real" where
  "quantize a e = of_int (round_even (a / pow2 (e - 52))) * pow2 (e - 52)"

definition signed :: "bool \<Rightarrow> real \<Rightarrow> jsnum" where
  "signed pos y =
     (if pow2 1024 \<le> y then (if pos then PosInf else NegInf)
      else if y = 0 then (if pos then Fin 0 else NegZero)
      else Fin (if pos then y else - y))"

definition round64 :: "real \<Rightarrow> jsnum" where
  "round64 x =
     (if x = 0 then Fin 0
      else signed (0 < x) (quantize \<bar>x\<bar> (max (ilog2 \<bar>x\<bar>) (- 1022))))"

fun is_nan :: "jsnum \<Rightarrow> bool" where
  "is_nan NaN = True"
| "is_nan _ = False"

fun is_inf :: "jsnum \<Rightarrow> bool" where
  "is_inf PosInf = True"
| "is_inf NegInf = True"
| "is_inf _ = False"

fun is_zero :: "jsnum \<Rightarrow> bool" where
  "is_zero (Fin r) = (r = 0)"
| "is_zero NegZero = True"
| "is_zero _ = False"

text \<open>The sign bit.\<close>

fun neg :: "jsnum \<Rightarrow> bool" where
  "neg (Fin r) = (r < 0)"
| "neg NegZero = True"
| "neg NegInf = True"
| "neg _ = False"

text \<open>The number a finite value denotes.\<close>

fun val :: "jsnum \<Rightarrow> real" where
  "val (Fin r) = r"
| "val _ = 0"

definition signed_zero :: "bool \<Rightarrow> jsnum" where
  "signed_zero s = (if s then NegZero else Fin 0)"

definition signed_inf :: "bool \<Rightarrow> jsnum" where
  "signed_inf s = (if s then NegInf else PosInf)"

fun js_negate :: "jsnum \<Rightarrow> jsnum" where
  "js_negate (Fin r) = (if r = 0 then NegZero else Fin (- r))"
| "js_negate NegZero = Fin 0"
| "js_negate PosInf = NegInf"
| "js_negate NegInf = PosInf"
| "js_negate NaN = NaN"

text \<open>\<^verbatim>\<open>a + b\<close>\<close>

definition js_add :: "jsnum \<Rightarrow> jsnum \<Rightarrow> jsnum" where
  "js_add a b =
     (if is_nan a \<or> is_nan b then NaN
      else if is_inf a then (if is_inf b \<and> neg a \<noteq> neg b then NaN else a)
      else if is_inf b then b
      else if is_zero a \<and> is_zero b then signed_zero (neg a \<and> neg b)
      else round64 (val a + val b))"

text \<open>\<^verbatim>\<open>a - b\<close>\<close>

definition js_sub :: "jsnum \<Rightarrow> jsnum \<Rightarrow> jsnum" where
  "js_sub a b = js_add a (js_negate b)"

text \<open>\<^verbatim>\<open>a * b\<close>\<close>

definition js_mul :: "jsnum \<Rightarrow> jsnum \<Rightarrow> jsnum" where
  "js_mul a b =
     (if is_nan a \<or> is_nan b then NaN
      else if is_inf a \<or> is_inf b
        then (if is_zero a \<or> is_zero b then NaN else signed_inf (neg a \<noteq> neg b))
      else if is_zero a \<or> is_zero b then signed_zero (neg a \<noteq> neg b)
      else round64 (val a * val b))"

text \<open>\<^verbatim>\<open>a / b\<close>\<close>

definition js_div :: "jsnum \<Rightarrow> jsnum \<Rightarrow> jsnum" where
  "js_div a b =
     (if is_nan a \<or> is_nan b then NaN
      else if is_inf a then (if is_inf b then NaN else signed_inf (neg a \<noteq> neg b))
      else if is_inf b then signed_zero (neg a \<noteq> neg b)
      else if is_zero b then (if is_zero a then NaN else signed_inf (neg a \<noteq> neg b))
      else if is_zero a then signed_zero (neg a \<noteq> neg b)
      else round64 (val a / val b))"

text \<open>
  \<^verbatim>\<open>a < b\<close> and \<^verbatim>\<open>a > b\<close>: false when an operand is NaN; the two zeros are equal.
\<close>

fun rank :: "jsnum \<Rightarrow> int" where
  "rank NegInf = - 1"
| "rank PosInf = 1"
| "rank _ = 0"

definition js_lt :: "jsnum \<Rightarrow> jsnum \<Rightarrow> bool" where
  "js_lt a b =
     (\<not> is_nan a \<and> \<not> is_nan b \<and> (rank a < rank b \<or> (rank a = rank b \<and> val a < val b)))"

definition js_gt :: "jsnum \<Rightarrow> jsnum \<Rightarrow> bool" where
  "js_gt a b = js_lt b a"

text \<open>
  \<^verbatim>\<open>Math.round\<close>: the nearest integer, a tie going towards \<open>+\<infinity>\<close>; the result is
  negative zero for an argument in \<open>[-1/2, 0)\<close>.
\<close>

fun Math_round :: "jsnum \<Rightarrow> jsnum" where
  "Math_round (Fin r) =
     (if \<lfloor>r + 1 / 2\<rfloor> = 0 then signed_zero (r < 0) else Fin (of_int \<lfloor>r + 1 / 2\<rfloor>))"
| "Math_round x = x"

text \<open>\<^verbatim>\<open>Math.ceil\<close>: negative zero for an argument in \<open>(-1, 0)\<close>.\<close>

fun Math_ceil :: "jsnum \<Rightarrow> jsnum" where
  "Math_ceil (Fin r) = (if \<lceil>r\<rceil> = 0 then signed_zero (r < 0) else Fin (of_int \<lceil>r\<rceil>))"
| "Math_ceil x = x"


section \<open>Data model\<close>

text \<open>
  Modelled from the spec: the class \<^verbatim>\<open>StreamInfo\<close>, whose file is not part of the
  sources at hand. The spec gives it a width, a height, a frame rate and codec parameters
  that this code never reads. Its constructor and its \<^verbatim>\<open>equals\<close> method are
  parameters of the model (see \<open>env\<close> below).
\<close>

record StreamInfo =
  width :: jsnum
  height :: jsnum
  frameRate :: jsnum
  codec :: string

text \<open>
  \<^verbatim>\<open>new Position(new Point(x, y), new Size(width, height))\<close> and
  \<^verbatim>\<open>new MotionControlEvent(action, button, position)\<close>. A button that the table lookup
  leaves \<^verbatim>\<open>undefined\<close> is \<open>None\<close>.
\<close>

datatype Point = Point jsnum jsnum

datatype Size = Size jsnum jsnum

datatype Position = Position Point Size

text \<open>
  What \<^verbatim>\<open>EVENT_ACTION_MAP[e.type]\<close> can be when it is not \<^verbatim>\<open>undefined\<close>: a number of
  the table, or the value that every object inherits under that name.
\<close>

datatype action = Number int | Inherited string

datatype MotionControlEvent = MotionControlEvent action "int option" Position

text \<open>
  The fields of the DOM objects that the code reads. \<open>ident\<close> stands for the identity of
  the element, which \<^verbatim>\<open>e.target === this.tag\<close> compares.
\<close>

record HTMLElement =
  ident :: nat
  clientWidth :: jsnum
  clientHeight :: jsnum
  offsetLeft :: jsnum
  offsetTop :: jsnum

record MouseEvent =
  type :: string
  button :: int
  clientX :: jsnum
  clientY :: jsnum
  target :: HTMLElement

type_synonym byte = "8 word"

text \<open>\<^verbatim>\<open>e.data\<close> of a message event on a socket whose binary type is \<^verbatim>\<open>arraybuffer\<close>.\<close>

datatype wsdata = ArrayBuffer "byte list" | Text string

text \<open>What \<^verbatim>\<open>JSON.parse\<close> returns.\<close>

datatype json =
    JNull
  | JBool bool
  | JNumber jsnum
  | JString string
  | JArray "json list"
  | JObject "(string \<times> json) list"

datatype exn = TypeError

text \<open>
  The code of the repository and of the platform that \<^verbatim>\<open>DeviceScreen.ts\<close> calls and
  that is not part of the sources at hand: the constants of \<^verbatim>\<open>MotionEvent\<close>,
  \<^verbatim>\<open>JSON.parse\<close> (\<open>None\<close> where it throws), the constructor and the \<^verbatim>\<open>equals\<close>
  method of \<^verbatim>\<open>StreamInfo\<close>, and \<^verbatim>\<open>toBuffer\<close> of a control event.
\<close>

record env =
  ACTION_DOWN :: int
  ACTION_MOVE :: int
  ACTION_UP :: int
  BUTTON_TERTIARY :: int
  JSON_parse :: "string \<Rightarrow> json option"
  newStreamInfo :: "json \<Rightarrow> StreamInfo"
  equals :: "StreamInfo \<Rightarrow> StreamInfo \<Rightarrow> bool"
  toBuffer :: "MotionControlEvent \<Rightarrow> byte list"

definition MESSAGE_TYPE_TEXT :: string where
  "MESSAGE_TYPE_TEXT = ''text''"

definition MESSAGE_TYPE_STREAM_INFO :: string where
  "MESSAGE_TYPE_STREAM_INFO = ''stream_info''"

definition DEFAULT_FPF :: jsnum where
  "DEFAULT_FPF = Fin 1"

text \<open>
  The two tables. \<^verbatim>\<open>BUTTONS_MAP[e.button]\<close> is read with \<open>map_of\<close>: a number that is not
  a key gives \<^verbatim>\<open>undefined\<close>. \<^verbatim>\<open>EVENT_ACTION_MAP[e.type]\<close> is read with a string, and an
  object literal also answers to the names it inherits from \<^verbatim>\<open>Object.prototype\<close>: for
  these the lookup gives a function (the prototype itself for \<^verbatim>\<open>__proto__\<close>), which is not
  \<^verbatim>\<open>undefined\<close>.
\<close>

definition BUTTONS_MAP :: "env \<Rightarrow> (int \<times> int) list" where
  "BUTTONS_MAP env = [(0, 17), (1, BUTTON_TERTIARY env), (2, 26)]"

definition EVENT_ACTION_MAP :: "env \<Rightarrow> (string \<times> int) list" where
  "EVENT_ACTION_MAP env =
     [(''mousedown'', ACTION_DOWN env), (''mousemove'', ACTION_MOVE env), (''mouseup'', ACTION_UP env)]"

definition Object_prototype_names :: "string list" where
  "Object_prototype_names =
     [''constructor'', ''__defineGetter__'', ''__defineSetter__'', ''hasOwnProperty'',
      ''__lookupGetter__'', ''__lookupSetter__'', ''isPrototypeOf'', ''propertyIsEnumerable'',
      ''toString'', ''valueOf'', ''__proto__'', ''toLocaleString'']"

definition lookup_action :: "env \<Rightarrow> string \<Rightarrow> action option" where
  "lookup_action env ty =
     (case map_of (EVENT_ACTION_MAP env) ty of
        Some a \<Rightarrow> Some (Number a)
      | None \<Rightarrow> if ty \<in> set Object_prototype_names then Some (Inherited ty) else None)"

section \<open>buildMotionEvent\<close>

text \<open>The constants that lines 57 to 71 compute, as functions of the target and the stream.\<close>

definition eps :: jsnum where
  "eps = Fin 100000"

definition ratio :: "StreamInfo \<Rightarrow> jsnum" where
  "ratio si = js_div (width si) (height si)"

definition shouldBe :: "StreamInfo \<Rightarrow> jsnum" where
  "shouldBe si = Math_round (js_mul eps (ratio si))"

definition haveNow :: "HTMLElement \<Rightarrow> jsnum" where
  "haveNow t = Math_round (js_div (js_mul eps (clientWidth t)) (clientHeight t))"

definition realHeight :: "HTMLElement \<Rightarrow> StreamInfo \<Rightarrow> jsnum" where
  "realHeight t si = Math_ceil (js_div (clientWidth t) (ratio si))"

definition top_of :: "HTMLElement \<Rightarrow> StreamInfo \<Rightarrow> jsnum" where
  "top_of t si = js_div (js_sub (clientHeight t) (realHeight t si)) (Fin 2)"

definition realWidth :: "HTMLElement \<Rightarrow> StreamInfo \<Rightarrow> jsnum" where
  "realWidth t si = Math_ceil (js_mul (clientHeight t) (ratio si))"

definition left_of :: "HTMLElement \<Rightarrow> StreamInfo \<Rightarrow> jsnum" where
  "left_of t si = js_div (js_sub (clientWidth t) (realWidth t si)) (Fin 2)"

text \<open>
  Lines 54 to 77: the values of \<^verbatim>\<open>touchX\<close>, \<^verbatim>\<open>touchY\<close>, \<^verbatim>\<open>clientWidth\<close> and
  \<^verbatim>\<open>clientHeight\<close> when line 78 is reached (\<open>cw\<close> and \<open>ch\<close> in
  \<open>buildMotionEvent\<close> below), and \<open>None\<close> where the function has returned \<^verbatim>\<open>null\<close>
  before.
\<close>

definition letterbox :: "MouseEvent \<Rightarrow> StreamInfo \<Rightarrow> (jsnum \<times> jsnum \<times> jsnum \<times> jsnum) option" where
  "letterbox e si =
     (let t = target e;
          touchX = js_sub (clientX e) (offsetLeft t);
          touchY = js_sub (clientY e) (offsetTop t)
      in if js_gt (shouldBe si) (haveNow t) then
           (if js_lt touchY (top_of t si) \<or> js_gt touchY (js_add (top_of t si) (realHeight t si))
            then None
            else Some (touchX, js_sub touchY (top_of t si), clientWidth t, realHeight t si))
         else if js_lt (shouldBe si) (haveNow t) then
           (if js_lt touchX (left_of t si) \<or> js_gt touchX (js_add (left_of t si) (realWidth t si))
            then None
            else Some (js_sub touchX (left_of t si), touchY, realWidth t si, clientHeight t))
         else Some (touchX, touchY, clientWidth t, clientHeight t))"

definition buildMotionEvent :: "env \<Rightarrow> MouseEvent \<Rightarrow> StreamInfo option \<Rightarrow> MotionControlEvent option" where
  "buildMotionEvent env e streamInfo =
     (case (lookup_action env (type e), streamInfo) of
        (Some action, Some si) \<Rightarrow>
          (case letterbox e si of
             None \<Rightarrow> None
           | Some (touchX, touchY, cw, ch) \<Rightarrow>
               let x = js_div (js_mul touchX (width si)) cw;
                   y = js_div (js_mul touchY (height si)) ch;
                   position = Position (Point x y) (Size (width si) (height si))
               in Some (MotionControlEvent action (map_of (BUTTONS_MAP env) (button e)) position))
      | _ \<Rightarrow> None)"

section \<open>The session\<close>

text \<open>
  The decoder (\<^verbatim>\<open>VideoConverter\<close>), the socket and the console are opaque to this code.
  The model records every call made on them, in order. A decoder instance is the number
  that \<^verbatim>\<open>new VideoConverter\<close> gave it: the count of instances constructed before it.
  \<open>NewVideoConverter h t r f\<close> is the construction of instance \<open>h\<close> on the element
  \<open>t\<close> with frame rate \<open>r\<close> and \<open>f\<close> frames per flush; \<open>AppendRawData\<close>, \<open>Pause\<close>
  and \<open>Play\<close> are the calls of that name on an instance; \<open>WsSend\<close> and \<open>WsClose\<close> are
  \<^verbatim>\<open>ws.send\<close> and \<^verbatim>\<open>ws.close\<close>; \<open>OnError l e\<close> is the call of the listener \<open>l\<close>;
  \<open>PreventDefault\<close> and \<open>StopPropagation\<close> are the calls on the event being handled.
\<close>

datatype logged = LogUndefined | LogJson json | LogData wsdata

datatype effect =
    AppendRawData nat "byte list"
  | Pause nat
  | NewVideoConverter nat nat jsnum jsnum
  | Play nat
  | WsSend "byte list"
  | WsClose
  | ConsoleLog logged
  | ConsoleError string
  | OnError nat string
  | PreventDefault
  | StopPropagation

datatype readyState = CONNECTING | OPEN | CLOSING | CLOSED

text \<open>
  The fields of \<^verbatim>\<open>DeviceScreen\<close>, with the variable \<^verbatim>\<open>down\<close> that the handlers of
  \<^verbatim>\<open>init\<close> share. \<open>ws\<close> is the ready state of the socket, \<open>tag\<close> the identity of the
  video element, \<open>errorListener\<close> the identity of the listener. \<open>down\<close> is a counter
  that moves by one; it is an integer here (binary64 is exact on integers below \<open>2^53\<close>).
\<close>

record DeviceScreen =
  errorListener :: "nat option"
  streamInfo :: "StreamInfo option"
  ws :: readyState
  converter :: "nat option"
  tag :: nat
  down :: int
  constructed :: nat
  effects :: "effect list"

definition emit :: "effect list \<Rightarrow> DeviceScreen \<Rightarrow> DeviceScreen" where
  "emit es s = s\<lparr>effects := effects s @ es\<rparr>"

text \<open>The state after the constructor: the socket is connecting, nothing is negotiated.\<close>

definition new_DeviceScreen :: "nat \<Rightarrow> DeviceScreen" where
  "new_DeviceScreen t =
     \<lparr>errorListener = None, streamInfo = None, ws = CONNECTING, converter = None, tag = t,
      down = 0, constructed = 0, effects = []\<rparr>"

text \<open>\<^verbatim>\<open>haveConnection\<close>: the socket exists from the constructor on, so its state decides.\<close>

definition haveConnection :: "DeviceScreen \<Rightarrow> bool" where
  "haveConnection s = (ws s = OPEN)"

text \<open>\<^verbatim>\<open>onError\<close> of \<^verbatim>\<open>init\<close>.\<close>

definition onError :: "string \<Rightarrow> DeviceScreen \<Rightarrow> DeviceScreen" where
  "onError e s =
     emit (if ws s = CLOSED then [ConsoleError ''WS closed''] else [])
       (case errorListener s of None \<Rightarrow> s | Some l \<Rightarrow> emit [OnError l e] s)"

text \<open>
  \<^verbatim>\<open>data.type\<close> and \<^verbatim>\<open>data.message\<close>: reading a property of \<^verbatim>\<open>null\<close> throws; an
  object has the property if the text had the key (the last one, where the key is
  repeated); arrays, strings, numbers and booleans have neither property. \<open>None\<close> is
  \<^verbatim>\<open>undefined\<close>.
\<close>

fun get_prop :: "json \<Rightarrow> string \<Rightarrow> exn + json option" where
  "get_prop JNull k = Inl TypeError"
| "get_prop (JObject kvs) k = Inr (map_of (rev kvs) k)"
| "get_prop _ k = Inr None"

text \<open>
  \<^verbatim>\<open>JSON.parse(e.data)\<close>: an \<^verbatim>\<open>ArrayBuffer\<close> is first converted to the string
  \<^verbatim>\<open>[object ArrayBuffer]\<close>, which is not JSON.
\<close>

fun parse_data :: "env \<Rightarrow> wsdata \<Rightarrow> json option" where
  "parse_data env (ArrayBuffer bs) = None"
| "parse_data env (Text txt) = JSON_parse env txt"

text \<open>The case \<^verbatim>\<open>MESSAGE_TYPE_STREAM_INFO\<close> of the switch, lines 113 to 121.\<close>

definition on_stream_info :: "env \<Rightarrow> json \<Rightarrow> DeviceScreen \<Rightarrow> DeviceScreen" where
  "on_stream_info env data s =
     (let newInfo = newStreamInfo env data;
          s1 = (case (converter s, streamInfo s) of
                  (Some c, Some si) \<Rightarrow>
                    if \<not> equals env si newInfo then emit [AppendRawData c [], Pause c] s else s
                | _ \<Rightarrow> s);
          h = constructed s1
      in emit [NewVideoConverter h (tag s1) (frameRate newInfo) DEFAULT_FPF, Play h]
           (s1\<lparr>streamInfo := Some newInfo, converter := Some h, constructed := Suc h\<rparr>))"

text \<open>
  \<^verbatim>\<open>ws.onmessage\<close>. In the \<^verbatim>\<open>catch\<close> block \<^verbatim>\<open>e\<close> is the exception caught, which has no
  \<^verbatim>\<open>data\<close>: \<^verbatim>\<open>undefined\<close> is logged.
\<close>

definition onmessage :: "env \<Rightarrow> wsdata \<Rightarrow> DeviceScreen \<Rightarrow> exn + DeviceScreen" where
  "onmessage env d s =
     (case (d, converter s) of
        (ArrayBuffer bs, Some c) \<Rightarrow> Inr (emit [AppendRawData c bs] s)
      | _ \<Rightarrow>
         (case parse_data env d of
            None \<Rightarrow> Inr (emit [ConsoleLog LogUndefined] s)
          | Some data \<Rightarrow>
             (case get_prop data ''type'' of
                Inl x \<Rightarrow> Inl x
              | Inr t \<Rightarrow>
                 if t = Some (JString MESSAGE_TYPE_STREAM_INFO) then Inr (on_stream_info env data s)
                 else if t = Some (JString MESSAGE_TYPE_TEXT) then
                   (case get_prop data ''message'' of
                      Inl x \<Rightarrow> Inl x
                    | Inr None \<Rightarrow> Inr (emit [ConsoleLog LogUndefined] s)
                    | Inr (Some m) \<Rightarrow> Inr (emit [ConsoleLog (LogJson m)] s))
                 else Inr (emit [ConsoleLog (LogData d)] s))))"

text \<open>
  \<^verbatim>\<open>onMouseEvent\<close> of \<^verbatim>\<open>init\<close>, with the value it returns: \<open>None\<close> is the
  \<^verbatim>\<open>undefined\<close> of the bare \<^verbatim>\<open>return\<close> on line 142.
\<close>

definition onMouseEvent :: "env \<Rightarrow> MouseEvent \<Rightarrow> DeviceScreen \<Rightarrow> bool option \<times> DeviceScreen" where
  "onMouseEvent env e s =
     (if ident (target e) = tag s \<and> haveConnection s then
        (case streamInfo s of
           None \<Rightarrow> (None, s)
         | Some si \<Rightarrow>
            (Some False,
             emit [PreventDefault, StopPropagation]
               (case buildMotionEvent env e (Some si) of
                  None \<Rightarrow> s
                | Some event \<Rightarrow> emit [WsSend (toBuffer env event)] s)))
      else (Some True, s))"

text \<open>The three handlers that \<^verbatim>\<open>init\<close> puts on \<^verbatim>\<open>document.body\<close>.\<close>

definition onmousedown :: "env \<Rightarrow> MouseEvent \<Rightarrow> DeviceScreen \<Rightarrow> DeviceScreen" where
  "onmousedown env e s = snd (onMouseEvent env e (s\<lparr>down := down s + 1\<rparr>))"

definition onmouseup :: "env \<Rightarrow> MouseEvent \<Rightarrow> DeviceScreen \<Rightarrow> DeviceScreen" where
  "onmouseup env e s = snd (onMouseEvent env e (s\<lparr>down := down s - 1\<rparr>))"

definition onmousemove :: "env \<Rightarrow> MouseEvent \<Rightarrow> DeviceScreen \<Rightarrow> DeviceScreen" where
  "onmousemove env e s = (if 0 < down s then snd (onMouseEvent env e s) else s)"

text \<open>\<^verbatim>\<open>tag.oncontextmenu\<close>, which returns \<^verbatim>\<open>false\<close>.\<close>

definition oncontextmenu :: "DeviceScreen \<Rightarrow> bool \<times> DeviceScreen" where
  "oncontextmenu s = (False, emit [PreventDefault] s)"

text \<open>
  The public methods. \<^verbatim>\<open>sendEvent\<close> takes any \<^verbatim>\<open>ControlEvent\<close> and only calls its
  \<^verbatim>\<open>toBuffer\<close>; the model takes the one kind of control event that this file builds.
\<close>

definition getStreamInfo :: "DeviceScreen \<Rightarrow> StreamInfo option" where
  "getStreamInfo s = streamInfo s"

definition setStreamInfo :: "StreamInfo \<Rightarrow> DeviceScreen \<Rightarrow> DeviceScreen" where
  "setStreamInfo info s = s\<lparr>streamInfo := Some info\<rparr>"

definition sendEvent :: "env \<Rightarrow> MotionControlEvent \<Rightarrow> DeviceScreen \<Rightarrow> DeviceScreen" where
  "sendEvent env event s = (if haveConnection s then emit [WsSend (toBuffer env event)] s else s)"

definition setErrorListener :: "nat \<Rightarrow> DeviceScreen \<Rightarrow> DeviceScreen" where
  "setErrorListener listener s = s\<lparr>errorListener := Some listener\<rparr>"

text \<open>\<^verbatim>\<open>stop\<close>: closing an open socket leaves it in the state \<^verbatim>\<open>CLOSING\<close>.\<close>

definition stop :: "DeviceScreen \<Rightarrow> DeviceScreen" where
  "stop s =
     (let s1 = (if haveConnection s then emit [WsClose] (s\<lparr>ws := CLOSING\<rparr>) else s)
      in case converter s1 of None \<Rightarrow> s1 | Some c \<Rightarrow> emit [Pause c] s1)"

section \<open>Runs\<close>

text \<open>
  Everything that can happen to a session: an event of the socket, of the pointer or of
  the video element, a call of a public method, or the socket changing its ready state on
  its own. An exception that leaves \<^verbatim>\<open>ws.onmessage\<close> ends that handler only; the state is
  as the handler left it, which is as it found it, since the handler throws before it
  writes.
\<close>

datatype op =
    Message wsdata
  | MouseDown MouseEvent
  | MouseUp MouseEvent
  | MouseMove MouseEvent
  | ContextMenu
  | ErrorEvent string
  | ReadyState readyState
  | SetStreamInfo StreamInfo
  | SendEvent MotionControlEvent
  | SetErrorListener nat
  | Stop

fun exec :: "env \<Rightarrow> op \<Rightarrow> DeviceScreen \<Rightarrow> DeviceScreen" where
  "exec env (Message d) s = (case onmessage env d s of Inl x \<Rightarrow> s | Inr s' \<Rightarrow> s')"
| "exec env (MouseDown e) s = onmousedown env e s"
| "exec env (MouseUp e) s = onmouseup env e s"
| "exec env (MouseMove e) s = onmousemove env e s"
| "exec env ContextMenu s = snd (oncontextmenu s)"
| "exec env (ErrorEvent e) s = onError e s"
| "exec env (ReadyState r) s = s\<lparr>ws := r\<rparr>"
| "exec env (SetStreamInfo info) s = setStreamInfo info s"
| "exec env (SendEvent event) s = sendEvent env event s"
| "exec env (SetErrorListener l) s = setErrorListener l s"
| "exec env Stop s = stop s"

fun run :: "env \<Rightarrow> op list \<Rightarrow> DeviceScreen \<Rightarrow> DeviceScreen" where
  "run env [] s = s"
| "run env (x # xs) s = run env xs (exec env x s)"

fun is_SetStreamInfo :: "op \<Rightarrow> bool" where
  "is_SetStreamInfo (SetStreamInfo info) = True"
| "is_SetStreamInfo _ = False"

fun is_MouseDown :: "op \<Rightarrow> bool" where
  "is_MouseDown (MouseDown e) = True"
| "is_MouseDown _ = False"

fun is_MouseUp :: "op \<Rightarrow> bool" where
  "is_MouseUp (MouseUp e) = True"
| "is_MouseUp _ = False"

section \<open>Example values\<close>

text \<open>
  The stream and the viewport of the worked example: a stream of 1920 by 1080 shown in an
  element of 400 by 300 at the origin of the page.
\<close>

definition info0 :: StreamInfo where
  "info0 = \<lparr>width = Fin 1920, height = Fin 1080, frameRate = Fin 30, codec = []\<rparr>"

definition info1 :: StreamInfo where
  "info1 = \<lparr>width = Fin 1080, height = Fin 1920, frameRate = Fin 30, codec = []\<rparr>"

definition el0 :: HTMLElement where
  "el0 = \<lparr>ident = 0, clientWidth = Fin 400, clientHeight = Fin 300, offsetLeft = Fin 0, offsetTop = Fin 0\<rparr>"

definition mouse :: "string \<Rightarrow> int \<Rightarrow> real \<Rightarrow> real \<Rightarrow> MouseEvent" where
  "mouse ty b x y = \<lparr>type = ty, button = b, clientX = Fin x, clientY = Fin y, target = el0\<rparr>"

text \<open>
  Two metadata messages as the peer sends them, and what \<^verbatim>\<open>JSON.parse\<close> makes of them.
  \<open>quoted\<close> puts a word between double quotes.
\<close>

definition quoted :: "string \<Rightarrow> string" where
  "quoted w = CHR 0x22 # w @ [CHR 0x22]"

definition stream_info_text :: "string \<Rightarrow> string \<Rightarrow> string" where
  "stream_info_text w h =
     ''{'' @ quoted ''type'' @ '':'' @ quoted ''stream_info'' @ '','' @ quoted ''width'' @ '':'' @ w @ '',''
       @ quoted ''height'' @ '':'' @ h @ '','' @ quoted ''frameRate'' @ '':30}''"

definition stream_info_json :: "real \<Rightarrow> real \<Rightarrow> json" where
  "stream_info_json w h =
     JObject [(''type'', JString ''stream_info''), (''width'', JNumber (Fin w)),
              (''height'', JNumber (Fin h)), (''frameRate'', JNumber (Fin 30))]"

text \<open>
  A stand-in for \<^verbatim>\<open>JSON.parse\<close> that agrees with it on the texts used below (any other
  text it refuses), and a constructor of \<^verbatim>\<open>StreamInfo\<close> that reads the three numbers.
\<close>

definition parse0 :: "string \<Rightarrow> json option" where
  "parse0 txt =
     (if txt = stream_info_text ''1920'' ''1080'' then Some (stream_info_json 1920 1080)
      else if txt = stream_info_text ''1080'' ''1920'' then Some (stream_info_json 1080 1920)
      else if txt = ''null'' then Some JNull
      else None)"

definition number_prop :: "json \<Rightarrow> string \<Rightarrow> jsnum" where
  "number_prop data k = (case get_prop data k of Inr (Some (JNumber n)) \<Rightarrow> n | _ \<Rightarrow> NaN)"

definition newStreamInfo0 :: "json \<Rightarrow> StreamInfo" where
  "newStreamInfo0 data =
     \<lparr>width = number_prop data ''width'', height = number_prop data ''height'',
      frameRate = number_prop data ''frameRate'', codec = []\<rparr>"

definition env0 :: env where
  "env0 =
     \<lparr>ACTION_DOWN = 0, ACTION_MOVE = 2, ACTION_UP = 1, BUTTON_TERTIARY = 4, JSON_parse = parse0,
      newStreamInfo = newStreamInfo0, equals = (=), toBuffer = (\<lambda>event. [])\<rparr>"

definition msg0 :: wsdata where
  "msg0 = Text (stream_info_text ''1920'' ''1080'')"

definition msg1 :: wsdata where
  "msg1 = Text (stream_info_text ''1080'' ''1920'')"

section \<open>Evaluating the arithmetic\<close>

lemma bitlen_One: "bitlen 1 = 1"
  by (subst compute_bitlen) simp

lemma bitlen_Bit0: "bitlen (numeral (Num.Bit0 n)) = bitlen (numeral n) + 1"
  by (subst compute_bitlen) simp

lemma bitlen_Bit1: "bitlen (numeral (Num.Bit1 n)) = bitlen (numeral n) + 1"
  by (subst compute_bitlen) simp

lemmas js_eval =
  js_div_def js_mul_def js_add_def js_sub_def js_lt_def js_gt_def round64_def quantize_def
  signed_def ilog2_def pow2_def round_even_def bitlen_One bitlen_Bit0 bitlen_Bit1
  signed_zero_def signed_inf_def

lemma info0_fields:
  "width info0 = Fin 1920" "height info0 = Fin 1080" "frameRate info0 = Fin 30"
  by (simp_all add: info0_def)

lemma el0_fields:
  "ident el0 = 0" "clientWidth el0 = Fin 400" "clientHeight el0 = Fin 300"
  "offsetLeft el0 = Fin 0" "offsetTop el0 = Fin 0"
  by (simp_all add: el0_def)

lemma mouse_fields:
  "type (mouse ty b x y) = ty" "button (mouse ty b x y) = b" "clientX (mouse ty b x y) = Fin x"
  "clientY (mouse ty b x y) = Fin y" "target (mouse ty b x y) = el0"
  by (simp_all add: mouse_def)

lemma ratio_info0: "ratio info0 = Fin (2001599834386887 / 1125899906842624)"
  by (simp add: ratio_def info0_fields js_eval)

lemma shouldBe_info0: "shouldBe info0 = Fin 177778"
  by (simp add: shouldBe_def ratio_info0 eps_def js_eval)

lemma haveNow_el0: "haveNow el0 = Fin 133333"
  by (simp add: haveNow_def el0_fields eps_def js_eval)

lemma realHeight_el0: "realHeight el0 info0 = Fin 225"
  by (simp add: realHeight_def ratio_info0 el0_fields js_eval)

lemma top_of_el0: "top_of el0 info0 = Fin (75 / 2)"
  by (simp add: top_of_def realHeight_el0 el0_fields js_eval)

lemma letterbox_padding: "letterbox (mouse ty b 200 10) info0 = None"
  by (simp add: letterbox_def mouse_fields el0_fields shouldBe_info0 haveNow_el0 top_of_el0
      realHeight_el0 js_eval)

lemma letterbox_content:
  "letterbox (mouse ty b 200 150) info0 = Some (Fin 200, Fin (225 / 2), Fin 400, Fin 225)"
  by (simp add: letterbox_def mouse_fields el0_fields shouldBe_info0 haveNow_el0 top_of_el0
      realHeight_el0 js_eval)

lemma map_of_EVENT_ACTION_MAP:
  "map_of (EVENT_ACTION_MAP env) ty =
     (if ty = ''mousedown'' then Some (ACTION_DOWN env)
      else if ty = ''mousemove'' then Some (ACTION_MOVE env)
      else if ty = ''mouseup'' then Some (ACTION_UP env)
      else None)"
  by (simp add: EVENT_ACTION_MAP_def)

lemma lookup_action_known:
  "map_of (EVENT_ACTION_MAP env) ty = Some a \<Longrightarrow> lookup_action env ty = Some (Number a)"
  by (simp add: lookup_action_def)

lemma lookup_action_types:
  "lookup_action env ''mousedown'' = Some (Number (ACTION_DOWN env))"
  "lookup_action env ''mousemove'' = Some (Number (ACTION_MOVE env))"
  "lookup_action env ''mouseup'' = Some (Number (ACTION_UP env))"
  by (simp_all add: lookup_action_def map_of_EVENT_ACTION_MAP)

lemma map_of_BUTTONS_MAP:
  "map_of (BUTTONS_MAP env) b =
     (if b = 0 then Some 17 else if b = 1 then Some (BUTTON_TERTIARY env)
      else if b = 2 then Some 26 else None)"
  by (simp add: BUTTONS_MAP_def)

lemma buildMotionEvent_content:
  "buildMotionEvent env (mouse ''mousedown'' 0 200 150) (Some info0) =
     Some (MotionControlEvent (Number (ACTION_DOWN env)) (Some 17)
            (Position (Point (Fin 960) (Fin 540)) (Size (Fin 1920) (Fin 1080))))"
  by (simp add: buildMotionEvent_def letterbox_content lookup_action_types map_of_BUTTONS_MAP
      mouse_fields info0_fields js_eval)

section \<open>The geometry of buildMotionEvent\<close>

lemma js_lt_asym: "js_lt a b \<Longrightarrow> \<not> js_lt b a"
  by (auto simp: js_lt_def)

text \<open>
  C5. The worked example: a viewport of 400 by 300 and a stream of 1920 by 1080. The
  rounded ratios are 177778 for the stream and 133333 for the viewport, so the picture is
  letterboxed at the top and the bottom; \<open>realHeight\<close> is 225 and \<open>top\<close> is 37.5. The
  pointer at (200, 10) lies above \<open>top\<close> and is rejected; the pointer at (200, 150) gives
  the device point (960, 540) in a space of 1920 by 1080. All of it holds in binary64
  arithmetic, every rounding included.
\<close>

theorem worked_example_400x300:
  "shouldBe info0 = Fin 177778 \<and> haveNow el0 = Fin 133333 \<and>
   js_gt (shouldBe info0) (haveNow el0) \<and>
   realHeight el0 info0 = Fin 225 \<and> top_of el0 info0 = Fin (75 / 2) \<and>
   js_lt (Fin 10) (top_of el0 info0) \<and>
   buildMotionEvent env (mouse ''mousedown'' 0 200 10) (Some info0) = None \<and>
   buildMotionEvent env (mouse ''mousedown'' 0 200 150) (Some info0) =
     Some (MotionControlEvent (Number (ACTION_DOWN env)) (Some 17)
            (Position (Point (Fin 960) (Fin 540)) (Size (Fin 1920) (Fin 1080))))"
proof -
  have "js_gt (shouldBe info0) (haveNow el0)"
    by (simp add: shouldBe_info0 haveNow_el0 js_gt_def js_lt_def)
  moreover have "js_lt (Fin 10) (top_of el0 info0)"
    by (simp add: top_of_el0 js_lt_def)
  moreover have "buildMotionEvent env (mouse ''mousedown'' 0 200 10) (Some info0) = None"
    by (simp add: buildMotionEvent_def letterbox_padding lookup_action_types mouse_fields)
  ultimately show ?thesis
    by (simp add: shouldBe_info0 haveNow_el0 realHeight_el0 top_of_el0 buildMotionEvent_content)
qed

text \<open>
  C6. A pointer in the padding is rejected. When the rounded ratio of the stream is
  greater than that of the viewport and the pointer, taken relative to the element, is
  above \<open>top\<close> or below \<open>top + realHeight\<close>, or when the rounded ratio of the stream is
  smaller and the pointer is left of \<open>left\<close> or right of \<open>left + realWidth\<close>, then
  \<open>buildMotionEvent\<close> returns \<^verbatim>\<open>null\<close>. No bound on the sizes is needed.
\<close>

theorem padding_is_rejected:
  assumes "(js_gt (shouldBe si) (haveNow (target e)) \<and>
            (js_lt (js_sub (clientY e) (offsetTop (target e))) (top_of (target e) si) \<or>
             js_gt (js_sub (clientY e) (offsetTop (target e)))
               (js_add (top_of (target e) si) (realHeight (target e) si)))) \<or>
           (js_lt (shouldBe si) (haveNow (target e)) \<and>
            (js_lt (js_sub (clientX e) (offsetLeft (target e))) (left_of (target e) si) \<or>
             js_gt (js_sub (clientX e) (offsetLeft (target e)))
               (js_add (left_of (target e) si) (realWidth (target e) si))))"
  shows "buildMotionEvent env e (Some si) = None"
proof -
  from assms have "letterbox e si = None"
    using js_lt_asym [of "shouldBe si" "haveNow (target e)"]
    by (auto simp: letterbox_def Let_def js_gt_def)
  then show ?thesis
    by (simp add: buildMotionEvent_def split: option.splits)
qed

theorem padding_is_rejected_witness:
  "js_gt (shouldBe info0) (haveNow (target (mouse ''mousedown'' 0 200 10))) \<and>
   js_lt (js_sub (clientY (mouse ''mousedown'' 0 200 10)) (offsetTop (target (mouse ''mousedown'' 0 200 10))))
     (top_of (target (mouse ''mousedown'' 0 200 10)) info0) \<and>
   buildMotionEvent env0 (mouse ''mousedown'' 0 200 10) (Some info0) = None"
proof -
  have gt: "js_gt (shouldBe info0) (haveNow (target (mouse ''mousedown'' 0 200 10)))"
    by (simp add: mouse_fields shouldBe_info0 haveNow_el0 js_gt_def js_lt_def)
  have lt: "js_lt (js_sub (clientY (mouse ''mousedown'' 0 200 10)) (offsetTop (target (mouse ''mousedown'' 0 200 10))))
     (top_of (target (mouse ''mousedown'' 0 200 10)) info0)"
    by (simp add: mouse_fields el0_fields top_of_el0 js_eval)
  from gt lt show ?thesis
    using padding_is_rejected [of info0 "mouse ''mousedown'' 0 200 10" env0] by blast
qed

section \<open>Metadata messages\<close>

lemma emit_fields:
  "errorListener (emit es s) = errorListener s" "streamInfo (emit es s) = streamInfo s"
  "ws (emit es s) = ws s" "converter (emit es s) = converter s" "tag (emit es s) = tag s"
  "down (emit es s) = down s" "constructed (emit es s) = constructed s"
  "effects (emit es s) = effects s @ es"
  by (simp_all add: emit_def)

lemma onmessage_stream_info:
  assumes "parse_data env d = Some data"
    and "get_prop data ''type'' = Inr (Some (JString MESSAGE_TYPE_STREAM_INFO))"
  shows "onmessage env d s = Inr (on_stream_info env data s)"
proof (cases d)
  case (ArrayBuffer bs)
  with assms(1) show ?thesis by simp
next
  case (Text str)
  with assms show ?thesis by (simp add: onmessage_def)
qed

lemma parse_msg0: "parse_data env0 msg0 = Some (stream_info_json 1920 1080)"
  by (simp add: msg0_def env0_def parse0_def)

lemma parse_msg1: "parse_data env0 msg1 = Some (stream_info_json 1080 1920)"
  by (simp add: msg1_def env0_def parse0_def stream_info_text_def quoted_def)

lemma type_stream_info_json:
  "get_prop (stream_info_json w h) ''type'' = Inr (Some (JString MESSAGE_TYPE_STREAM_INFO))"
  by (simp add: stream_info_json_def MESSAGE_TYPE_STREAM_INFO_def)

lemma newStreamInfo_env0:
  "newStreamInfo env0 (stream_info_json 1920 1080) = info0"
  "newStreamInfo env0 (stream_info_json 1080 1920) = info1"
  by (simp_all add: env0_def newStreamInfo0_def number_prop_def stream_info_json_def info0_def
      info1_def)

lemma equals_env0: "equals env0 a b = (a = b)"
  by (simp add: env0_def)

lemma info0_neq_info1: "info0 \<noteq> info1"
  by (simp add: info0_def info1_def)

lemma info1_fields:
  "width info1 = Fin 1080" "height info1 = Fin 1920" "frameRate info1 = Fin 30"
  by (simp_all add: info1_def)

text \<open>The session after the first metadata message.\<close>

lemma first_stream_info:
  "run env0 [Message msg0] (new_DeviceScreen 0) =
     \<lparr>errorListener = None, streamInfo = Some info0, ws = CONNECTING, converter = Some 0, tag = 0,
      down = 0, constructed = 1,
      effects = [NewVideoConverter 0 0 (Fin 30) DEFAULT_FPF, Play 0]\<rparr>"
  by (simp add: onmessage_stream_info [OF parse_msg0 type_stream_info_json] on_stream_info_def
      newStreamInfo_env0 new_DeviceScreen_def emit_def info0_fields Let_def)

text \<open>
  C4. A metadata message whose StreamInfo differs from the current one, while a decoder
  runs: the handler feeds the running decoder an empty payload, pauses it, constructs the
  new decoder with the new frame rate and \<open>DEFAULT_FPF\<close> and starts it, in this order and
  with nothing in between; the new decoder and the new StreamInfo become the current ones.
\<close>

theorem changed_stream_info_flushes_first:
  assumes "converter s = Some c" and "streamInfo s = Some si"
    and "parse_data env d = Some data"
    and "get_prop data ''type'' = Inr (Some (JString MESSAGE_TYPE_STREAM_INFO))"
    and "\<not> equals env si (newStreamInfo env data)"
  shows "onmessage env d s =
    Inr (s\<lparr>streamInfo := Some (newStreamInfo env data), converter := Some (constructed s),
           constructed := Suc (constructed s),
           effects := effects s @
             [AppendRawData c [], Pause c,
              NewVideoConverter (constructed s) (tag s) (frameRate (newStreamInfo env data)) DEFAULT_FPF,
              Play (constructed s)]\<rparr>)"
  using assms
  by (simp add: onmessage_stream_info [OF assms(3,4)] on_stream_info_def emit_def Let_def)

theorem changed_stream_info_flushes_first_witness:
  "converter (run env0 [Message msg0] (new_DeviceScreen 0)) = Some 0 \<and>
   streamInfo (run env0 [Message msg0] (new_DeviceScreen 0)) = Some info0 \<and>
   parse_data env0 msg1 = Some (stream_info_json 1080 1920) \<and>
   \<not> equals env0 info0 (newStreamInfo env0 (stream_info_json 1080 1920)) \<and>
   onmessage env0 msg1 (run env0 [Message msg0] (new_DeviceScreen 0)) =
     Inr \<lparr>errorListener = None, streamInfo = Some info1, ws = CONNECTING, converter = Some 1,
          tag = 0, down = 0, constructed = 2,
          effects = [NewVideoConverter 0 0 (Fin 30) DEFAULT_FPF, Play 0, AppendRawData 0 [], Pause 0,
                     NewVideoConverter 1 0 (Fin 30) DEFAULT_FPF, Play 1]\<rparr>"
proof -
  let ?s = "run env0 [Message msg0] (new_DeviceScreen 0)"
  have c: "converter ?s = Some 0" and i: "streamInfo ?s = Some info0"
    by (simp_all only: first_stream_info) simp_all
  have ne: "\<not> equals env0 info0 (newStreamInfo env0 (stream_info_json 1080 1920))"
    by (simp add: equals_env0 newStreamInfo_env0 info0_neq_info1)
  show ?thesis
    using changed_stream_info_flushes_first [OF c i parse_msg1 type_stream_info_json ne] c i ne
    unfolding first_stream_info
    by (simp add: parse_msg1 newStreamInfo_env0 info1_fields)
qed

text \<open>
  C9. A text payload that \<^verbatim>\<open>JSON.parse\<close> refuses: the handler returns normally, logs
  (the value logged is \<^verbatim>\<open>undefined\<close>) and leaves every field of the session as it was.
\<close>

theorem malformed_message_is_discarded:
  assumes "JSON_parse env txt = None"
  shows "onmessage env (Text txt) s = Inr (s\<lparr>effects := effects s @ [ConsoleLog LogUndefined]\<rparr>)"
  using assms by (simp add: onmessage_def emit_def)

theorem malformed_message_is_discarded_witness:
  "JSON_parse env0 ''{oops'' = None \<and>
   onmessage env0 (Text ''{oops'') (run env0 [Message msg0] (new_DeviceScreen 0)) =
     Inr \<lparr>errorListener = None, streamInfo = Some info0, ws = CONNECTING, converter = Some 0,
          tag = 0, down = 0, constructed = 1,
          effects = [NewVideoConverter 0 0 (Fin 30) DEFAULT_FPF, Play 0, ConsoleLog LogUndefined]\<rparr>"
proof -
  have p: "JSON_parse env0 ''{oops'' = None"
    by (simp add: env0_def parse0_def stream_info_text_def)
  show ?thesis
    using malformed_message_is_discarded [OF p, of "run env0 [Message msg0] (new_DeviceScreen 0)"] p
    unfolding first_stream_info by simp
qed

section \<open>Steps of the session\<close>

lemma emit_Nil: "emit [] s = s"
  by (simp add: emit_def)

lemma emit_emit: "emit es (emit es' s) = emit (es' @ es) s"
  by (simp add: emit_def)

lemma on_stream_info_fields:
  "errorListener (on_stream_info env data s) = errorListener s"
  "streamInfo (on_stream_info env data s) = Some (newStreamInfo env data)"
  "ws (on_stream_info env data s) = ws s"
  "converter (on_stream_info env data s) = Some (constructed s)"
  "tag (on_stream_info env data s) = tag s"
  "down (on_stream_info env data s) = down s"
  "constructed (on_stream_info env data s) = Suc (constructed s)"
  by (simp_all add: on_stream_info_def Let_def emit_def split: option.splits)

lemma onmessage_result:
  assumes "onmessage env d s = Inr s'"
  shows "(\<exists>es. s' = emit es s) \<or> (\<exists>data. s' = on_stream_info env data s)"
  using assms
  by (auto simp: onmessage_def split: wsdata.splits option.splits sum.splits if_splits)

lemma exec_Message:
  "(\<exists>es. exec env (Message d) s = emit es s) \<or>
   (\<exists>data. exec env (Message d) s = on_stream_info env data s)"
proof (cases "onmessage env d s")
  case (Inl x)
  then have "exec env (Message d) s = emit [] s" by (simp add: emit_Nil)
  then show ?thesis by blast
next
  case (Inr s')
  with onmessage_result [OF Inr] show ?thesis by simp
qed

lemma onMouseEvent_emits: "\<exists>es. snd (onMouseEvent env e s) = emit es s"
proof (cases "buildMotionEvent env e (streamInfo s)")
  case None
  then show ?thesis
    by (auto simp: onMouseEvent_def emit_emit split: option.splits intro: exI [of _ "[]"] simp: emit_Nil)
next
  case (Some event)
  then show ?thesis
    by (auto simp: onMouseEvent_def emit_emit split: option.splits intro: exI [of _ "[]"] simp: emit_Nil)
qed

text \<open>What one step does to the fields other than the log of effects.\<close>

lemma exec_shape:
  "(\<exists>es. exec env x s = emit es s) \<or>
   (\<exists>data. exec env x s = on_stream_info env data s) \<or>
   (\<exists>es. is_MouseDown x \<and> exec env x s = emit es (s\<lparr>down := down s + 1\<rparr>)) \<or>
   (\<exists>es. is_MouseUp x \<and> exec env x s = emit es (s\<lparr>down := down s - 1\<rparr>)) \<or>
   (\<exists>r. exec env x s = s\<lparr>ws := r\<rparr>) \<or>
   (\<exists>info. is_SetStreamInfo x \<and> exec env x s = s\<lparr>streamInfo := Some info\<rparr>) \<or>
   (\<exists>l. exec env x s = s\<lparr>errorListener := Some l\<rparr>) \<or>
   (\<exists>es. exec env x s = emit es (s\<lparr>ws := CLOSING\<rparr>))"
proof (cases x)
  case (Message d)
  with exec_Message [of env d s] show ?thesis by auto
next
  case (MouseDown e)
  with onMouseEvent_emits [of env e "s\<lparr>down := down s + 1\<rparr>"] show ?thesis
    by (auto simp: onmousedown_def)
next
  case (MouseUp e)
  with onMouseEvent_emits [of env e "s\<lparr>down := down s - 1\<rparr>"] show ?thesis
    by (auto simp: onmouseup_def)
next
  case (MouseMove e)
  with onMouseEvent_emits [of env e s] show ?thesis
    by (auto simp: onmousemove_def intro: exI [of _ "[]"] simp: emit_Nil)
next
  case ContextMenu
  then show ?thesis by (auto simp: oncontextmenu_def)
next
  case (ErrorEvent e)
  then show ?thesis by (auto simp: onError_def emit_emit split: option.splits)
next
  case (ReadyState r)
  then show ?thesis by auto
next
  case (SetStreamInfo info)
  then show ?thesis by (auto simp: setStreamInfo_def)
next
  case (SendEvent event)
  then show ?thesis by (auto simp: sendEvent_def intro: exI [of _ "[]"] simp: emit_Nil)
next
  case (SetErrorListener l)
  then show ?thesis by (auto simp: setErrorListener_def)
next
  case Stop
  then show ?thesis
    by (auto simp: stop_def Let_def emit_emit split: option.splits intro: exI [of _ "[]"] simp: emit_Nil)
qed

lemma run_invariant:
  assumes "P s" and "\<And>x s. x \<in> set ops \<Longrightarrow> P s \<Longrightarrow> P (exec env x s)"
  shows "P (run env ops s)"
  using assms by (induction ops arbitrary: s) auto

text \<open>The current decoder is one of those constructed so far.\<close>

lemma exec_converter_constructed:
  assumes "\<forall>c. converter s = Some c \<longrightarrow> c < constructed s"
  shows "\<forall>c. converter (exec env x s) = Some c \<longrightarrow> c < constructed (exec env x s)"
  using exec_shape [of env x s] assms
  by (elim disjE exE conjE) (simp_all add: emit_fields on_stream_info_fields)

lemma run_converter_constructed:
  "converter (run env ops (new_DeviceScreen t)) = Some c \<Longrightarrow>
   c < constructed (run env ops (new_DeviceScreen t))"
proof -
  have "\<forall>c. converter (run env ops (new_DeviceScreen t)) = Some c \<longrightarrow>
          c < constructed (run env ops (new_DeviceScreen t))"
    by (rule run_invariant) (simp_all add: new_DeviceScreen_def exec_converter_constructed)
  then show "converter (run env ops (new_DeviceScreen t)) = Some c \<Longrightarrow>
    c < constructed (run env ops (new_DeviceScreen t))" by blast
qed

lemma exec_converter_streamInfo:
  assumes "converter s \<noteq> None \<longrightarrow> streamInfo s \<noteq> None"
  shows "converter (exec env x s) \<noteq> None \<longrightarrow> streamInfo (exec env x s) \<noteq> None"
  using exec_shape [of env x s] assms
  by (elim disjE exE conjE) (simp_all add: emit_fields on_stream_info_fields)

lemma exec_streamInfo_converter:
  assumes "streamInfo s \<noteq> None \<longrightarrow> converter s \<noteq> None" and "\<not> is_SetStreamInfo x"
  shows "streamInfo (exec env x s) \<noteq> None \<longrightarrow> converter (exec env x s) \<noteq> None"
  using exec_shape [of env x s] assms
  by (elim disjE exE conjE) (simp_all add: emit_fields on_stream_info_fields)

lemma exec_down:
  "down (exec env x s) =
     down s + (if is_MouseDown x then 1 else 0) - (if is_MouseUp x then 1 else 0)"
proof (cases x)
  case (Message d)
  with exec_Message [of env d s] show ?thesis
    by (auto simp: emit_fields on_stream_info_fields)
next
  case (MouseDown e)
  with onMouseEvent_emits [of env e "s\<lparr>down := down s + 1\<rparr>"] show ?thesis
    by (auto simp: onmousedown_def emit_fields)
next
  case (MouseUp e)
  with onMouseEvent_emits [of env e "s\<lparr>down := down s - 1\<rparr>"] show ?thesis
    by (auto simp: onmouseup_def emit_fields)
next
  case (MouseMove e)
  with onMouseEvent_emits [of env e s] show ?thesis
    by (auto simp: onmousemove_def emit_fields)
next
  case Stop
  then show ?thesis
    by (simp add: stop_def Let_def emit_fields split: option.splits)
qed (simp_all add: oncontextmenu_def onError_def emit_fields setStreamInfo_def sendEvent_def
      setErrorListener_def split: option.splits)

lemma run_down:
  "down (run env ops s) =
     down s + int (length (filter is_MouseDown ops)) - int (length (filter is_MouseUp ops))"
  by (induction ops arbitrary: s) (simp_all add: exec_down)

text \<open>
  C3, as the code has it. The handlers count without a floor: after any run, \<open>down\<close> is
  the number of presses minus the number of releases, so it is negative as soon as the
  releases outnumber the presses. A move is translated only while \<open>down\<close> is greater
  than zero: at zero and at every negative value the move handler does nothing.
\<close>

theorem down_is_presses_minus_releases:
  "down (run env ops (new_DeviceScreen t)) =
     int (length (filter is_MouseDown ops)) - int (length (filter is_MouseUp ops)) \<and>
   (down s \<le> 0 \<longrightarrow> onmousemove env e s = s)"
  by (simp add: run_down new_DeviceScreen_def onmousemove_def)

theorem down_is_presses_minus_releases_witness:
  "down (run env0 [MouseUp (mouse ''mouseup'' 0 200 150)] (new_DeviceScreen 0)) = - 1 \<and>
   down (run env0 [MouseUp (mouse ''mouseup'' 0 200 150)] (new_DeviceScreen 0)) \<le> 0 \<and>
   onmousemove env0 (mouse ''mousemove'' 0 200 150)
       (run env0 [MouseUp (mouse ''mouseup'' 0 200 150)] (new_DeviceScreen 0)) =
     run env0 [MouseUp (mouse ''mouseup'' 0 200 150)] (new_DeviceScreen 0)"
proof -
  have d: "down (run env0 [MouseUp (mouse ''mouseup'' 0 200 150)] (new_DeviceScreen 0)) = - 1"
    by (simp add: onmouseup_def onMouseEvent_def new_DeviceScreen_def haveConnection_def)
  show ?thesis
    using down_is_presses_minus_releases [of env0 "[MouseUp (mouse ''mouseup'' 0 200 150)]" 0
        "run env0 [MouseUp (mouse ''mouseup'' 0 200 150)] (new_DeviceScreen 0)"
        "mouse ''mousemove'' 0 200 150"] d
    by simp
qed

text \<open>
  A release that no press came before (the button went down outside the page) takes the
  counter of a fresh session from 0 to -1.
\<close>

theorem release_at_zero_goes_negative:
  "down (new_DeviceScreen 0) = 0 \<and>
   down (run env0 [MouseUp (mouse ''mouseup'' 0 200 150)] (new_DeviceScreen 0)) = - 1"
  by (simp add: onmouseup_def onMouseEvent_def new_DeviceScreen_def haveConnection_def)

lemma exec_streamInfo_stays:
  assumes "streamInfo s \<noteq> None"
  shows "streamInfo (exec env x s) \<noteq> None"
  using exec_shape [of env x s] assms
  by (elim disjE exE conjE) (simp_all add: emit_fields on_stream_info_fields)

lemma exec_SetStreamInfo_present:
  "is_SetStreamInfo x \<Longrightarrow> streamInfo (exec env x s) \<noteq> None"
  by (cases x) (simp_all add: setStreamInfo_def)

lemma run_streamInfo_present:
  "streamInfo s \<noteq> None \<or> (\<exists>x \<in> set ops. is_SetStreamInfo x) \<Longrightarrow>
   streamInfo (run env ops s) \<noteq> None"
proof (induction ops arbitrary: s)
  case Nil
  then show ?case by simp
next
  case (Cons x xs)
  show ?case
  proof (cases "streamInfo s \<noteq> None \<or> is_SetStreamInfo x")
    case True
    then have "streamInfo (exec env x s) \<noteq> None"
      using exec_streamInfo_stays [of s env x] exec_SetStreamInfo_present [of x env s] by blast
    then show ?thesis using Cons.IH [of "exec env x s"] by simp
  next
    case False
    with Cons.prems have "\<exists>y \<in> set xs. is_SetStreamInfo y" by auto
    then show ?thesis using Cons.IH [of "exec env x s"] by simp
  qed
qed

text \<open>
  C2, as the code has it. In every state that a run reaches, the StreamInfo is present
  exactly when a decoder is present or \<^verbatim>\<open>setStreamInfo\<close> has been called. So the decoder
  is present if and only if the StreamInfo is, in every state but those where
  \<^verbatim>\<open>setStreamInfo\<close> was called and no metadata message has made a decoder yet: there the
  StreamInfo is present and the decoder is not.
\<close>

theorem stream_info_present_iff_decoder_or_set:
  "streamInfo (run env ops (new_DeviceScreen t)) \<noteq> None \<longleftrightarrow>
     converter (run env ops (new_DeviceScreen t)) \<noteq> None \<or> (\<exists>x \<in> set ops. is_SetStreamInfo x)"
proof -
  have "converter (run env ops (new_DeviceScreen t)) \<noteq> None \<longrightarrow>
      streamInfo (run env ops (new_DeviceScreen t)) \<noteq> None"
    by (rule run_invariant) (simp_all add: new_DeviceScreen_def exec_converter_streamInfo)
  moreover have "streamInfo (run env ops (new_DeviceScreen t)) \<noteq> None \<longrightarrow>
      converter (run env ops (new_DeviceScreen t)) \<noteq> None"
    if "\<forall>x \<in> set ops. \<not> is_SetStreamInfo x"
    by (rule run_invariant) (use that in \<open>simp_all add: new_DeviceScreen_def exec_streamInfo_converter\<close>)
  moreover have "streamInfo (run env ops (new_DeviceScreen t)) \<noteq> None"
    if "\<exists>x \<in> set ops. is_SetStreamInfo x"
    using that run_streamInfo_present [of "new_DeviceScreen t" ops env] by blast
  ultimately show ?thesis by blast
qed

theorem stream_info_present_iff_decoder_or_set_witness:
  "is_SetStreamInfo (SetStreamInfo info1) \<and>
   converter (run env0 [Message msg0, SetStreamInfo info1] (new_DeviceScreen 0)) = Some 0 \<and>
   streamInfo (run env0 [Message msg0, SetStreamInfo info1] (new_DeviceScreen 0)) = Some info1 \<and>
   converter (run env0 [Message msg0] (new_DeviceScreen 0)) = Some 0 \<and>
   streamInfo (run env0 [Message msg0] (new_DeviceScreen 0)) = Some info0 \<and>
   converter (run env0 [] (new_DeviceScreen 0)) = None \<and>
   streamInfo (run env0 [] (new_DeviceScreen 0)) = None"
proof -
  have a: "run env0 [Message msg0, SetStreamInfo info1] (new_DeviceScreen 0) =
      setStreamInfo info1 (run env0 [Message msg0] (new_DeviceScreen 0))"
    by simp
  show ?thesis
    using stream_info_present_iff_decoder_or_set [of env0 "[Message msg0, SetStreamInfo info1]" 0]
      stream_info_present_iff_decoder_or_set [of env0 "[Message msg0]" 0]
      stream_info_present_iff_decoder_or_set [of env0 "[]" 0]
    unfolding a first_stream_info
    by (simp add: setStreamInfo_def new_DeviceScreen_def)
qed

text \<open>
  \<^verbatim>\<open>setStreamInfo\<close> on a fresh session stores the StreamInfo and makes no decoder.
\<close>

theorem setStreamInfo_makes_no_decoder:
  "streamInfo (run env0 [SetStreamInfo info0] (new_DeviceScreen 0)) = Some info0 \<and>
   converter (run env0 [SetStreamInfo info0] (new_DeviceScreen 0)) = None"
  by (simp add: setStreamInfo_def new_DeviceScreen_def)

lemma onmessage_msg0_first:
  "onmessage env0 msg0 (new_DeviceScreen 0) =
     Inr \<lparr>errorListener = None, streamInfo = Some info0, ws = CONNECTING, converter = Some 0,
          tag = 0, down = 0, constructed = 1,
          effects = [NewVideoConverter 0 0 (Fin 30) DEFAULT_FPF, Play 0]\<rparr>"
  by (simp add: onmessage_stream_info [OF parse_msg0 type_stream_info_json] on_stream_info_def
      newStreamInfo_env0 new_DeviceScreen_def emit_def info0_fields Let_def)

lemma onmessage_msg0_again:
  "onmessage env0 msg0
     \<lparr>errorListener = None, streamInfo = Some info0, ws = CONNECTING, converter = Some 0,
      tag = 0, down = 0, constructed = 1,
      effects = [NewVideoConverter 0 0 (Fin 30) DEFAULT_FPF, Play 0]\<rparr> =
     Inr \<lparr>errorListener = None, streamInfo = Some info0, ws = CONNECTING, converter = Some 1,
          tag = 0, down = 0, constructed = 2,
          effects = [NewVideoConverter 0 0 (Fin 30) DEFAULT_FPF, Play 0,
                     NewVideoConverter 1 0 (Fin 30) DEFAULT_FPF, Play 1]\<rparr>"
  by (simp add: onmessage_stream_info [OF parse_msg0 type_stream_info_json] on_stream_info_def
      newStreamInfo_env0 equals_env0 emit_def info0_fields Let_def)

lemma second_stream_info:
  "run env0 [Message msg0, Message msg0] (new_DeviceScreen 0) =
     \<lparr>errorListener = None, streamInfo = Some info0, ws = CONNECTING, converter = Some 1,
      tag = 0, down = 0, constructed = 2,
      effects = [NewVideoConverter 0 0 (Fin 30) DEFAULT_FPF, Play 0,
                 NewVideoConverter 1 0 (Fin 30) DEFAULT_FPF, Play 1]\<rparr>"
  by (simp only: run.simps exec.simps onmessage_msg0_first onmessage_msg0_again sum.case)

text \<open>
  C1, as the code has it. A metadata message whose StreamInfo equals the current one,
  while a decoder runs: the running decoder is neither fed nor paused, but the handler
  still constructs a decoder and starts it, and that new instance replaces the running one
  as the current decoder.
\<close>

theorem equal_stream_info_restarts_decoder:
  assumes "s = run env ops (new_DeviceScreen t)"
    and "converter s = Some c" and "streamInfo s = Some si"
    and "parse_data env d = Some data"
    and "get_prop data ''type'' = Inr (Some (JString MESSAGE_TYPE_STREAM_INFO))"
    and "equals env si (newStreamInfo env data)"
  shows "onmessage env d s =
    Inr (s\<lparr>streamInfo := Some (newStreamInfo env data), converter := Some (constructed s),
           constructed := Suc (constructed s),
           effects := effects s @
             [NewVideoConverter (constructed s) (tag s) (frameRate (newStreamInfo env data)) DEFAULT_FPF,
              Play (constructed s)]\<rparr>) \<and>
    constructed s \<noteq> c"
proof -
  have "c < constructed s"
    using run_converter_constructed [of env ops t c] assms(1,2) by simp
  moreover have "onmessage env d s =
    Inr (s\<lparr>streamInfo := Some (newStreamInfo env data), converter := Some (constructed s),
           constructed := Suc (constructed s),
           effects := effects s @
             [NewVideoConverter (constructed s) (tag s) (frameRate (newStreamInfo env data)) DEFAULT_FPF,
              Play (constructed s)]\<rparr>)"
    using assms(2,3,6)
    by (simp add: onmessage_stream_info [OF assms(4,5)] on_stream_info_def emit_def Let_def)
  ultimately show ?thesis by simp
qed

theorem equal_stream_info_restarts_decoder_witness:
  "converter (run env0 [Message msg0] (new_DeviceScreen 0)) = Some 0 \<and>
   streamInfo (run env0 [Message msg0] (new_DeviceScreen 0)) = Some info0 \<and>
   parse_data env0 msg0 = Some (stream_info_json 1920 1080) \<and>
   equals env0 info0 (newStreamInfo env0 (stream_info_json 1920 1080)) \<and>
   onmessage env0 msg0 (run env0 [Message msg0] (new_DeviceScreen 0)) =
     Inr \<lparr>errorListener = None, streamInfo = Some info0, ws = CONNECTING, converter = Some 1,
          tag = 0, down = 0, constructed = 2,
          effects = [NewVideoConverter 0 0 (Fin 30) DEFAULT_FPF, Play 0,
                     NewVideoConverter 1 0 (Fin 30) DEFAULT_FPF, Play 1]\<rparr>"
proof -
  let ?s = "run env0 [Message msg0] (new_DeviceScreen 0)"
  have c: "converter ?s = Some 0" and i: "streamInfo ?s = Some info0"
    unfolding first_stream_info by simp_all
  have e: "equals env0 info0 (newStreamInfo env0 (stream_info_json 1920 1080))"
    by (simp add: equals_env0 newStreamInfo_env0)
  show ?thesis
    using equal_stream_info_restarts_decoder [OF refl c i parse_msg0 type_stream_info_json e] c i e
    unfolding first_stream_info onmessage_msg0_again
    by (simp add: parse_msg0)
qed

text \<open>
  The same metadata message twice: after the second one the current decoder is instance 1,
  not instance 0, and a second decoder was constructed and started.
\<close>

theorem equal_stream_info_is_not_a_noop:
  "converter (run env0 [Message msg0] (new_DeviceScreen 0)) = Some 0 \<and>
   streamInfo (run env0 [Message msg0] (new_DeviceScreen 0)) = Some info0 \<and>
   parse_data env0 msg0 = Some (stream_info_json 1920 1080) \<and>
   equals env0 info0 (newStreamInfo env0 (stream_info_json 1920 1080)) \<and>
   converter (run env0 [Message msg0, Message msg0] (new_DeviceScreen 0)) = Some 1 \<and>
   effects (run env0 [Message msg0, Message msg0] (new_DeviceScreen 0)) =
     [NewVideoConverter 0 0 (Fin 30) DEFAULT_FPF, Play 0,
      NewVideoConverter 1 0 (Fin 30) DEFAULT_FPF, Play 1]"
  unfolding first_stream_info second_stream_info
  by (simp add: parse_msg0 equals_env0 newStreamInfo_env0)

lemma session_open:
  "run env0 [ReadyState OPEN, Message msg0] (new_DeviceScreen 0) =
     \<lparr>errorListener = None, streamInfo = Some info0, ws = OPEN, converter = Some 0,
      tag = 0, down = 0, constructed = 1,
      effects = [NewVideoConverter 0 0 (Fin 30) DEFAULT_FPF, Play 0]\<rparr>"
  by (simp add: onmessage_stream_info [OF parse_msg0 type_stream_info_json] on_stream_info_def
      newStreamInfo_env0 new_DeviceScreen_def emit_def info0_fields Let_def)

lemma buildMotionEvent_move:
  "buildMotionEvent env (mouse ''mousemove'' 0 200 150) (Some info0) =
     Some (MotionControlEvent (Number (ACTION_MOVE env)) (Some 17)
            (Position (Point (Fin 960) (Fin 540)) (Size (Fin 1920) (Fin 1080))))"
  by (simp add: buildMotionEvent_def letterbox_content lookup_action_types map_of_BUTTONS_MAP
      mouse_fields info0_fields js_eval)

text \<open>
  C8, as the code has it. With the socket in any state but \<^verbatim>\<open>OPEN\<close>, nothing is sent
  and nothing is thrown: \<^verbatim>\<open>sendEvent\<close>, \<^verbatim>\<open>onMouseEvent\<close> and the move handler leave every
  field of the session, the log of effects included, as it was; the press and the release
  handler still count, and change \<open>down\<close> and nothing else.
\<close>

theorem closed_channel_sends_nothing:
  assumes "\<not> haveConnection s"
  shows "sendEvent env event s = s \<and> onMouseEvent env e s = (Some True, s) \<and>
    onmousemove env e s = s \<and>
    onmousedown env e s = s\<lparr>down := down s + 1\<rparr> \<and>
    onmouseup env e s = s\<lparr>down := down s - 1\<rparr>"
  using assms
  by (simp add: sendEvent_def onMouseEvent_def onmousemove_def onmousedown_def onmouseup_def
      haveConnection_def)

theorem closed_channel_sends_nothing_witness:
  "\<not> haveConnection (new_DeviceScreen 0) \<and>
   sendEvent env0 (MotionControlEvent (Number 0) (Some 17) (Position (Point (Fin 960) (Fin 540)) (Size (Fin 1920) (Fin 1080))))
     (new_DeviceScreen 0) = new_DeviceScreen 0 \<and>
   onMouseEvent env0 (mouse ''mousedown'' 0 200 150) (new_DeviceScreen 0) = (Some True, new_DeviceScreen 0) \<and>
   onmousemove env0 (mouse ''mousedown'' 0 200 150) (new_DeviceScreen 0) = new_DeviceScreen 0 \<and>
   onmousedown env0 (mouse ''mousedown'' 0 200 150) (new_DeviceScreen 0) = (new_DeviceScreen 0)\<lparr>down := 1\<rparr> \<and>
   onmouseup env0 (mouse ''mousedown'' 0 200 150) (new_DeviceScreen 0) = (new_DeviceScreen 0)\<lparr>down := - 1\<rparr>"
proof -
  have h: "\<not> haveConnection (new_DeviceScreen 0)"
    by (simp add: haveConnection_def new_DeviceScreen_def)
  have d: "down (new_DeviceScreen 0) = 0"
    by (simp add: new_DeviceScreen_def)
  show ?thesis
    using closed_channel_sends_nothing [OF h] h by (simp add: d)
qed

text \<open>
  A press while the socket is still connecting is not a no-op: it takes \<open>down\<close> from 0
  to 1, and that decides what a later move does. The socket opens, the stream is
  negotiated and the pointer moves: after the press the move is sent, without it the move
  is dropped.
\<close>

theorem press_while_connecting_counts:
  "\<not> haveConnection (new_DeviceScreen 0) \<and>
   down (new_DeviceScreen 0) = 0 \<and>
   down (onmousedown env0 (mouse ''mousedown'' 0 200 150) (new_DeviceScreen 0)) = 1 \<and>
   effects (run env0 [ReadyState OPEN, Message msg0, MouseMove (mouse ''mousemove'' 0 200 150)]
              (new_DeviceScreen 0)) =
     [NewVideoConverter 0 0 (Fin 30) DEFAULT_FPF, Play 0] \<and>
   effects (run env0 [MouseDown (mouse ''mousedown'' 0 200 150), ReadyState OPEN, Message msg0,
                      MouseMove (mouse ''mousemove'' 0 200 150)] (new_DeviceScreen 0)) =
     [NewVideoConverter 0 0 (Fin 30) DEFAULT_FPF, Play 0,
      WsSend (toBuffer env0 (MotionControlEvent (Number 2) (Some 17)
                (Position (Point (Fin 960) (Fin 540)) (Size (Fin 1920) (Fin 1080))))),
      PreventDefault, StopPropagation]"
proof -
  have h: "\<not> haveConnection (new_DeviceScreen 0)"
    by (simp add: haveConnection_def new_DeviceScreen_def)
  have p: "onmousedown env0 (mouse ''mousedown'' 0 200 150) (new_DeviceScreen 0) =
      (new_DeviceScreen 0)\<lparr>down := 1\<rparr>"
    using h by (simp add: onmousedown_def onMouseEvent_def new_DeviceScreen_def)
  have a: "run env0 [ReadyState OPEN, Message msg0, MouseMove (mouse ''mousemove'' 0 200 150)]
        (new_DeviceScreen 0) =
      onmousemove env0 (mouse ''mousemove'' 0 200 150)
        (run env0 [ReadyState OPEN, Message msg0] (new_DeviceScreen 0))"
    by simp
  have o: "run env0 [ReadyState OPEN, Message msg0] ((new_DeviceScreen 0)\<lparr>down := 1\<rparr>) =
     \<lparr>errorListener = None, streamInfo = Some info0, ws = OPEN, converter = Some 0,
      tag = 0, down = 1, constructed = 1,
      effects = [NewVideoConverter 0 0 (Fin 30) DEFAULT_FPF, Play 0]\<rparr>"
    by (simp add: onmessage_stream_info [OF parse_msg0 type_stream_info_json] on_stream_info_def
        newStreamInfo_env0 new_DeviceScreen_def emit_def info0_fields Let_def)
  have b: "run env0 [MouseDown (mouse ''mousedown'' 0 200 150), ReadyState OPEN, Message msg0,
        MouseMove (mouse ''mousemove'' 0 200 150)] (new_DeviceScreen 0) =
      onmousemove env0 (mouse ''mousemove'' 0 200 150)
        (run env0 [ReadyState OPEN, Message msg0] ((new_DeviceScreen 0)\<lparr>down := 1\<rparr>))"
    by (simp add: p)
  have e1: "effects (onmousemove env0 (mouse ''mousemove'' 0 200 150)
        (run env0 [ReadyState OPEN, Message msg0] (new_DeviceScreen 0))) =
      [NewVideoConverter 0 0 (Fin 30) DEFAULT_FPF, Play 0]"
    unfolding session_open by (simp add: onmousemove_def)
  have e2: "effects (onmousemove env0 (mouse ''mousemove'' 0 200 150)
        (run env0 [ReadyState OPEN, Message msg0] ((new_DeviceScreen 0)\<lparr>down := 1\<rparr>))) =
      [NewVideoConverter 0 0 (Fin 30) DEFAULT_FPF, Play 0,
       WsSend (toBuffer env0 (MotionControlEvent (Number 2) (Some 17)
                 (Position (Point (Fin 960) (Fin 540)) (Size (Fin 1920) (Fin 1080))))),
       PreventDefault, StopPropagation]"
    unfolding o
    by (simp add: onmousemove_def onMouseEvent_def haveConnection_def mouse_fields el0_fields
        buildMotionEvent_move emit_def env0_def)
  show ?thesis
    unfolding a b e1 e2 using h by (simp add: p) (simp add: new_DeviceScreen_def)
qed

text \<open>
  C10. A mouse event whose button is none of 0, 1 and 2, of a type that the action table
  knows, with the pointer in the content area: \<^verbatim>\<open>buildMotionEvent\<close> returns an event
  whose button is \<^verbatim>\<open>undefined\<close>; and when the target is the video element, the socket
  is open and the stream is negotiated, \<^verbatim>\<open>onMouseEvent\<close> sends its buffer.
\<close>

theorem unknown_button_is_sent_undefined:
  assumes "button e \<noteq> 0" and "button e \<noteq> 1" and "button e \<noteq> 2"
    and "map_of (EVENT_ACTION_MAP env) (type e) = Some a"
    and "letterbox e si = Some (tx, ty, cw, ch)"
  shows "buildMotionEvent env e (Some si) =
      Some (MotionControlEvent (Number a) None
        (Position (Point (js_div (js_mul tx (width si)) cw) (js_div (js_mul ty (height si)) ch))
                  (Size (width si) (height si)))) \<and>
    (ident (target e) = tag s \<and> haveConnection s \<and> streamInfo s = Some si \<longrightarrow>
      onMouseEvent env e s =
        (Some False,
         emit [WsSend (toBuffer env (MotionControlEvent (Number a) None
                 (Position (Point (js_div (js_mul tx (width si)) cw) (js_div (js_mul ty (height si)) ch))
                           (Size (width si) (height si))))),
               PreventDefault, StopPropagation] s))"
proof -
  have b: "buildMotionEvent env e (Some si) =
      Some (MotionControlEvent (Number a) None
        (Position (Point (js_div (js_mul tx (width si)) cw) (js_div (js_mul ty (height si)) ch))
                  (Size (width si) (height si))))"
    using assms by (simp add: buildMotionEvent_def map_of_BUTTONS_MAP lookup_action_known)
  then show ?thesis
    by (simp add: onMouseEvent_def emit_emit)
qed

theorem unknown_button_is_sent_undefined_witness:
  "button (mouse ''mousedown'' 3 200 150) \<noteq> 0 \<and> button (mouse ''mousedown'' 3 200 150) \<noteq> 1 \<and>
   button (mouse ''mousedown'' 3 200 150) \<noteq> 2 \<and>
   map_of (EVENT_ACTION_MAP env0) (type (mouse ''mousedown'' 3 200 150)) = Some 0 \<and>
   letterbox (mouse ''mousedown'' 3 200 150) info0 = Some (Fin 200, Fin (225 / 2), Fin 400, Fin 225) \<and>
   buildMotionEvent env0 (mouse ''mousedown'' 3 200 150) (Some info0) =
     Some (MotionControlEvent (Number 0) None (Position (Point (Fin 960) (Fin 540)) (Size (Fin 1920) (Fin 1080)))) \<and>
   ident (target (mouse ''mousedown'' 3 200 150)) =
     tag (run env0 [ReadyState OPEN, Message msg0] (new_DeviceScreen 0)) \<and>
   haveConnection (run env0 [ReadyState OPEN, Message msg0] (new_DeviceScreen 0)) \<and>
   streamInfo (run env0 [ReadyState OPEN, Message msg0] (new_DeviceScreen 0)) = Some info0 \<and>
   effects (snd (onMouseEvent env0 (mouse ''mousedown'' 3 200 150)
       (run env0 [ReadyState OPEN, Message msg0] (new_DeviceScreen 0)))) =
     [NewVideoConverter 0 0 (Fin 30) DEFAULT_FPF, Play 0,
      WsSend (toBuffer env0 (MotionControlEvent (Number 0) None
                (Position (Point (Fin 960) (Fin 540)) (Size (Fin 1920) (Fin 1080))))),
      PreventDefault, StopPropagation]"
proof -
  let ?e = "mouse ''mousedown'' 3 200 150"
  have b: "button ?e \<noteq> 0" "button ?e \<noteq> 1" "button ?e \<noteq> 2"
    by (simp_all add: mouse_fields)
  have a: "map_of (EVENT_ACTION_MAP env0) (type ?e) = Some 0"
    by (simp add: map_of_EVENT_ACTION_MAP mouse_fields env0_def)
  have x: "js_div (js_mul (Fin 200) (width info0)) (Fin 400) = Fin 960"
    by (simp add: info0_fields js_eval)
  have y: "js_div (js_mul (Fin (225 / 2)) (height info0)) (Fin 225) = Fin 540"
    by (simp add: info0_fields js_eval)
  show ?thesis
    using unknown_button_is_sent_undefined [OF b a letterbox_content, of "run env0 [ReadyState OPEN, Message msg0] (new_DeviceScreen 0)"]
      b a
    unfolding session_open x y
    by (simp add: letterbox_content mouse_fields el0_fields haveConnection_def emit_def info0_fields)
qed

text \<open>
  C7. A move while \<open>down\<close> is 0 changes nothing: no call is made, on the socket or
  elsewhere. The same move while \<open>down\<close> is at least 1, on the video element, with the
  socket open, the stream negotiated and the pointer in the content area, sends the
  buffer of the event that \<^verbatim>\<open>buildMotionEvent\<close> makes of it.
\<close>

theorem move_sent_only_while_pressed:
  "(down s = 0 \<longrightarrow> onmousemove env e s = s) \<and>
   (1 \<le> down s' \<and> type e = ''mousemove'' \<and> ident (target e) = tag s' \<and> haveConnection s' \<and>
    streamInfo s' = Some si \<and> letterbox e si \<noteq> None \<longrightarrow>
      (\<exists>event. buildMotionEvent env e (Some si) = Some event \<and>
         onmousemove env e s' = emit [WsSend (toBuffer env event), PreventDefault, StopPropagation] s'))"
proof (intro conjI impI)
  assume "down s = 0"
  then show "onmousemove env e s = s" by (simp add: onmousemove_def)
next
  assume h: "1 \<le> down s' \<and> type e = ''mousemove'' \<and> ident (target e) = tag s' \<and> haveConnection s' \<and>
    streamInfo s' = Some si \<and> letterbox e si \<noteq> None"
  then obtain p where p: "letterbox e si = Some p" by auto
  obtain tx ty cw ch where "p = (tx, ty, cw, ch)" by (cases p) auto
  with p h have "\<exists>event. buildMotionEvent env e (Some si) = Some event"
    by (simp add: buildMotionEvent_def lookup_action_types Let_def)
  then obtain event where ev: "buildMotionEvent env e (Some si) = Some event" ..
  with h have "onmousemove env e s' = emit [WsSend (toBuffer env event), PreventDefault, StopPropagation] s'"
    by (simp add: onmousemove_def onMouseEvent_def emit_emit)
  with ev show "\<exists>event. buildMotionEvent env e (Some si) = Some event \<and>
         onmousemove env e s' = emit [WsSend (toBuffer env event), PreventDefault, StopPropagation] s'"
    by blast
qed

lemma session_pressed:
  "run env0 [ReadyState OPEN, Message msg0, MouseDown (mouse ''mousedown'' 0 200 150)] (new_DeviceScreen 0) =
     \<lparr>errorListener = None, streamInfo = Some info0, ws = OPEN, converter = Some 0,
      tag = 0, down = 1, constructed = 1,
      effects = [NewVideoConverter 0 0 (Fin 30) DEFAULT_FPF, Play 0, WsSend [], PreventDefault,
                 StopPropagation]\<rparr>"
proof -
  have "run env0 [ReadyState OPEN, Message msg0, MouseDown (mouse ''mousedown'' 0 200 150)] (new_DeviceScreen 0) =
    onmousedown env0 (mouse ''mousedown'' 0 200 150) (run env0 [ReadyState OPEN, Message msg0] (new_DeviceScreen 0))"
    by simp
  also have "\<dots> = \<lparr>errorListener = None, streamInfo = Some info0, ws = OPEN, converter = Some 0,
      tag = 0, down = 1, constructed = 1,
      effects = [NewVideoConverter 0 0 (Fin 30) DEFAULT_FPF, Play 0, WsSend [], PreventDefault,
                 StopPropagation]\<rparr>"
    unfolding session_open
    by (simp add: onmousedown_def onMouseEvent_def haveConnection_def mouse_fields el0_fields
        buildMotionEvent_content emit_def env0_def)
  finally show ?thesis .
qed

theorem move_sent_only_while_pressed_witness:
  "down (run env0 [ReadyState OPEN, Message msg0] (new_DeviceScreen 0)) = 0 \<and>
   effects (onmousemove env0 (mouse ''mousemove'' 0 200 150)
       (run env0 [ReadyState OPEN, Message msg0] (new_DeviceScreen 0))) =
     effects (run env0 [ReadyState OPEN, Message msg0] (new_DeviceScreen 0)) \<and>
   1 \<le> down (run env0 [ReadyState OPEN, Message msg0, MouseDown (mouse ''mousedown'' 0 200 150)]
              (new_DeviceScreen 0)) \<and>
   letterbox (mouse ''mousemove'' 0 200 150) info0 \<noteq> None \<and>
   effects (onmousemove env0 (mouse ''mousemove'' 0 200 150)
       (run env0 [ReadyState OPEN, Message msg0, MouseDown (mouse ''mousedown'' 0 200 150)]
          (new_DeviceScreen 0))) =
     effects (run env0 [ReadyState OPEN, Message msg0, MouseDown (mouse ''mousedown'' 0 200 150)]
          (new_DeviceScreen 0)) @
     [WsSend (toBuffer env0 (MotionControlEvent (Number 2) (Some 17)
                (Position (Point (Fin 960) (Fin 540)) (Size (Fin 1920) (Fin 1080))))),
      PreventDefault, StopPropagation]"
  using move_sent_only_while_pressed [of "run env0 [ReadyState OPEN, Message msg0] (new_DeviceScreen 0)" env0
      "mouse ''mousemove'' 0 200 150"
      "run env0 [ReadyState OPEN, Message msg0, MouseDown (mouse ''mousedown'' 0 200 150)] (new_DeviceScreen 0)"
      info0]
  unfolding session_open session_pressed
  by (simp add: letterbox_content mouse_fields el0_fields haveConnection_def buildMotionEvent_move
      emit_def env0_def)

end
